theory Spec2Isabelle
  imports Complex_Main "HOL-Library.Log_Nat" "HOL-Library.Product_Lexorder"
begin

section \<open>Finishing-material calculator: the model\<close>

text \<open>
  The package computes how many purchasable units of a finishing material are needed to
  cover an area, and what they cost. This theory embeds \<^verbatim>\<open>models.py\<close> and
  \<^verbatim>\<open>calculations.py\<close>.
\<close>

subsection \<open>Python floats\<close>

text \<open>
  The docstrings type every price, dimension, area and percentage as \<^verbatim>\<open>float\<close>, and
  the arithmetic of the code is the arithmetic of binary64 floats: \<^verbatim>\<open>/\<close> is true
  division, and every operation rounds its exact result to the nearest float, ties to the
  even mantissa. A float is modelled by the rational number it stands for, or it is an
  infinity or NaN. There is one zero: the code never observes the sign of a zero
  (comparisons, \<^verbatim>\<open>math.ceil\<close> and the zero test of \<^verbatim>\<open>/\<close> take \<open>-0.0\<close> for
  \<open>0.0\<close>).

  A Python \<^verbatim>\<open>int\<close> that is passed where the docstring says \<^verbatim>\<open>float\<close> is read
  as the float of the same value. An operation on an \<^verbatim>\<open>int\<close> and a float converts
  the \<^verbatim>\<open>int\<close> so, and \<^verbatim>\<open>/\<close> on two of them gives the float nearest to
  their quotient; \<^verbatim>\<open>*\<close> and \<^verbatim>\<open>-\<close> on two of them are exact in Python and
  agree with the float operations while the results stay below \<open>2 ^ 53\<close>. Larger
  \<^verbatim>\<open>int\<close> values are outside the model.
\<close>

datatype pyfloat = Fin rat | PosInf | NegInf | NaN

definition pow2 :: "int \<Rightarrow> rat" where
  "pow2 e = (if 0 \<le> e then 2 ^ nat e else 1 / 2 ^ nat (- e))"

text \<open>The binary exponent of a positive rational: \<open>2 ^ ilog2 x \<le> x < 2 ^ (ilog2 x + 1)\<close>.\<close>

definition ilog2 :: "rat \<Rightarrow> int" where
  "ilog2 x = (if 1 \<le> x then bitlen \<lfloor>x\<rfloor> - 1 else - bitlen (\<lceil>1 / x\<rceil> - 1))"

definition round_half_even :: "rat \<Rightarrow> int" where
  "round_half_even x =
     (let f = \<lfloor>x\<rfloor>; d = x - of_int f
      in if d < 1 / 2 then f else if 1 / 2 < d then f + 1 else if even f then f else f + 1)"

text \<open>
  Rounding to binary64: 53 bits of mantissa, the smallest exponent \<open>-1022\<close> (below it the
  spacing of the subnormal numbers stays \<open>2 ^ -1074\<close>), overflow to an infinity when the
  rounded value reaches \<open>2 ^ 1024\<close>.
\<close>

definition round64 :: "rat \<Rightarrow> pyfloat" where
  "round64 x =
     (if x = 0 then Fin 0
      else
        let e = max (ilog2 \<bar>x\<bar>) (- 1022);
            ulp = pow2 (e - 52);
            y = of_int (round_half_even (x / ulp)) * ulp
        in if pow2 1024 \<le> \<bar>y\<bar> then (if 0 < x then PosInf else NegInf) else Fin y)"

text \<open>
  The conversion of an \<^verbatim>\<open>int\<close> operand in mixed arithmetic, for an
  \<^verbatim>\<open>int\<close> within the range of the floats (beyond it Python raises
  \<^verbatim>\<open>OverflowError\<close>).
\<close>

definition float_of_int :: "int \<Rightarrow> pyfloat" where
  "float_of_int n = round64 (of_int n)"

text \<open>The comparisons \<^verbatim>\<open><\<close> and \<^verbatim>\<open><=\<close>: false whenever an operand is NaN.\<close>

fun flt :: "pyfloat \<Rightarrow> pyfloat \<Rightarrow> bool" where
  "flt (Fin a) (Fin b) = (a < b)"
| "flt NaN y = False"
| "flt x NaN = False"
| "flt x NegInf = False"
| "flt PosInf y = False"
| "flt x y = True"

fun fle :: "pyfloat \<Rightarrow> pyfloat \<Rightarrow> bool" where
  "fle (Fin a) (Fin b) = (a \<le> b)"
| "fle NaN y = False"
| "fle x NaN = False"
| "fle NegInf y = True"
| "fle x PosInf = True"
| "fle x y = False"

fun fsign :: "pyfloat \<Rightarrow> int" where
  "fsign (Fin a) = (if a < 0 then - 1 else if a = 0 then 0 else 1)"
| "fsign PosInf = 1"
| "fsign NegInf = - 1"
| "fsign NaN = 0"

fun fadd :: "pyfloat \<Rightarrow> pyfloat \<Rightarrow> pyfloat" where
  "fadd (Fin a) (Fin b) = round64 (a + b)"
| "fadd NaN y = NaN"
| "fadd x NaN = NaN"
| "fadd PosInf NegInf = NaN"
| "fadd NegInf PosInf = NaN"
| "fadd PosInf y = PosInf"
| "fadd x PosInf = PosInf"
| "fadd NegInf y = NegInf"
| "fadd x NegInf = NegInf"

fun fsub :: "pyfloat \<Rightarrow> pyfloat \<Rightarrow> pyfloat" where
  "fsub (Fin a) (Fin b) = round64 (a - b)"
| "fsub NaN y = NaN"
| "fsub x NaN = NaN"
| "fsub PosInf PosInf = NaN"
| "fsub NegInf NegInf = NaN"
| "fsub PosInf y = PosInf"
| "fsub x NegInf = PosInf"
| "fsub NegInf y = NegInf"
| "fsub x PosInf = NegInf"

fun fmul :: "pyfloat \<Rightarrow> pyfloat \<Rightarrow> pyfloat" where
  "fmul (Fin a) (Fin b) = round64 (a * b)"
| "fmul NaN y = NaN"
| "fmul x NaN = NaN"
| "fmul x y =
     (if fsign x * fsign y = 0 then NaN
      else if 0 < fsign x * fsign y then PosInf else NegInf)"

text \<open>The quotient by a divisor that is not zero.\<close>

fun fdiv :: "pyfloat \<Rightarrow> pyfloat \<Rightarrow> pyfloat" where
  "fdiv (Fin a) (Fin b) = round64 (a / b)"
| "fdiv NaN y = NaN"
| "fdiv x NaN = NaN"
| "fdiv (Fin a) y = Fin 0"
| "fdiv x (Fin b) = (if 0 < fsign x * fsign (Fin b) then PosInf else NegInf)"
| "fdiv x y = NaN"

text \<open>
  The exceptions of the program: the code raises \<^verbatim>\<open>ValueError\<close> itself,
  \<^verbatim>\<open>/\<close> raises \<^verbatim>\<open>ZeroDivisionError\<close> on a zero divisor, and
  \<^verbatim>\<open>math.ceil\<close> raises \<^verbatim>\<open>ValueError\<close> on NaN and \<^verbatim>\<open>OverflowError\<close> on an
  infinity.
\<close>

datatype error = ValueError | ZeroDivisionError | OverflowError

definition truediv :: "pyfloat \<Rightarrow> pyfloat \<Rightarrow> error + pyfloat" where
  "truediv x y = (if y = Fin 0 then Inl ZeroDivisionError else Inr (fdiv x y))"

fun math_ceil :: "pyfloat \<Rightarrow> error + int" where
  "math_ceil (Fin a) = Inr \<lceil>a\<rceil>"
| "math_ceil NaN = Inl ValueError"
| "math_ceil x = Inl OverflowError"

subsection \<open>models.py\<close>

text \<open>
  The class of a material object, with the attributes its subclass adds to the three
  attributes of \<^verbatim>\<open>Material\<close>.
\<close>

datatype kind =
    Base
  | IsWallpaper (roll_width: pyfloat) (roll_length: pyfloat)
  | IsTile (tiles_per_box: int) (tile_width: pyfloat) (tile_height: pyfloat)
  | IsLaminate (planks_per_pack: int) (plank_width: pyfloat) (plank_length: pyfloat)

record material =
  name :: string
  price_per_unit :: pyfloat
  unit_coverage :: pyfloat
  kind :: kind

text \<open>\<^verbatim>\<open>Material.__init__\<close>: the three arguments are stored as they come.\<close>

definition Material :: "string \<Rightarrow> pyfloat \<Rightarrow> pyfloat \<Rightarrow> material" where
  "Material nm price coverage =
     \<lparr>name = nm, price_per_unit = price, unit_coverage = coverage, kind = Base\<rparr>"

text \<open>\<^verbatim>\<open>Wallpaper.__init__\<close>; the defaults of the source are 0.53 and 10.05.\<close>

definition Wallpaper :: "string \<Rightarrow> pyfloat \<Rightarrow> pyfloat \<Rightarrow> pyfloat \<Rightarrow> material" where
  "Wallpaper nm price_per_roll width len =
     (let coverage = fmul width len
      in (Material nm price_per_roll coverage)\<lparr>kind := IsWallpaper width len\<rparr>)"

definition Wallpaper_default :: "string \<Rightarrow> pyfloat \<Rightarrow> material" where
  "Wallpaper_default nm price_per_roll =
     Wallpaper nm price_per_roll (round64 (53 / 100)) (round64 (1005 / 100))"

text \<open>
  \<^verbatim>\<open>Tile.__init__\<close>; the defaults of the source are 0.3 by 0.3. The number of tiles
  is an \<^verbatim>\<open>int\<close>, converted for the product.
\<close>

definition Tile :: "string \<Rightarrow> pyfloat \<Rightarrow> int \<Rightarrow> pyfloat \<Rightarrow> pyfloat \<Rightarrow> material" where
  "Tile nm price_per_box per_box width height =
     (let tile_area = fmul width height;
          coverage = fmul tile_area (float_of_int per_box)
      in (Material nm price_per_box coverage)\<lparr>kind := IsTile per_box width height\<rparr>)"

definition Tile_default :: "string \<Rightarrow> pyfloat \<Rightarrow> int \<Rightarrow> material" where
  "Tile_default nm price_per_box per_box =
     Tile nm price_per_box per_box (round64 (3 / 10)) (round64 (3 / 10))"

text \<open>\<^verbatim>\<open>Laminate.__init__\<close>; the defaults of the source are 0.193 by 1.380.\<close>

definition Laminate :: "string \<Rightarrow> pyfloat \<Rightarrow> int \<Rightarrow> pyfloat \<Rightarrow> pyfloat \<Rightarrow> material" where
  "Laminate nm price_per_pack per_pack width len =
     (let plank_area = fmul width len;
          coverage = fmul plank_area (float_of_int per_pack)
      in (Material nm price_per_pack coverage)\<lparr>kind := IsLaminate per_pack width len\<rparr>)"

definition Laminate_default :: "string \<Rightarrow> pyfloat \<Rightarrow> int \<Rightarrow> material" where
  "Laminate_default nm price_per_pack per_pack =
     Laminate nm price_per_pack per_pack (round64 (193 / 1000)) (round64 (1380 / 1000))"

record calculation_result =
  material :: material
  area :: pyfloat
  units_needed :: int
  total_cost :: pyfloat
  reserve_percent :: pyfloat

subsection \<open>calculations.py: MaterialCalculator\<close>

text \<open>
  Python is dynamically typed: the \<^verbatim>\<open>material\<close> argument of
  \<^verbatim>\<open>calculate\<close> may be any object, and the code asks
  \<^verbatim>\<open>isinstance(material, Material)\<close>, which holds for instances of the base class
  and of its three subclasses.
\<close>

datatype pyvalue = Instance material | NoneValue | Number pyfloat | Text string

fun isinstance_Material :: "pyvalue \<Rightarrow> bool" where
  "isinstance_Material (Instance m) = True"
| "isinstance_Material v = False"

text \<open>
  Python lists are objects: the history list of a calculator and the copies that
  \<^verbatim>\<open>get_history\<close> hands out are different objects with their own contents. The
  store holds the contents of every list object, by address; a new object gets the next
  free address.
\<close>

type_synonym addr = nat
type_synonym store = "calculation_result list list"

definition alloc :: "calculation_result list \<Rightarrow> store \<Rightarrow> addr \<times> store" where
  "alloc xs s = (length s, s @ [xs])"

record material_calculator =
  priv_reserve_percent :: pyfloat
  priv_calculations_history :: addr

text \<open>\<^verbatim>\<open>MaterialCalculator.__init__\<close>: the argument is stored unchecked.\<close>

definition MaterialCalculator :: "pyfloat \<Rightarrow> store \<Rightarrow> material_calculator \<times> store" where
  "MaterialCalculator r s =
     (let (h, s') = alloc [] s
      in (\<lparr>priv_reserve_percent = r, priv_calculations_history = h\<rparr>, s'))"

definition MaterialCalculator_default :: "store \<Rightarrow> material_calculator \<times> store" where
  "MaterialCalculator_default s = MaterialCalculator (Fin 10) s"

definition get_reserve_percent :: "material_calculator \<Rightarrow> pyfloat" where
  "get_reserve_percent self = priv_reserve_percent self"

text \<open>The setter: \<^verbatim>\<open>if value < 0 or value > 100: raise ValueError\<close>.\<close>

definition set_reserve_percent ::
  "material_calculator \<Rightarrow> pyfloat \<Rightarrow> error + material_calculator" where
  "set_reserve_percent self v =
     (if flt v (Fin 0) \<or> flt (Fin 100) v then Inl ValueError
      else Inr (self\<lparr>priv_reserve_percent := v\<rparr>))"

text \<open>\<^verbatim>\<open>list.append\<close> on the list object at an address.\<close>

definition append_at :: "addr \<Rightarrow> calculation_result \<Rightarrow> store \<Rightarrow> store" where
  "append_at a x s = s[a := s ! a @ [x]]"

text \<open>
  \<^verbatim>\<open>MaterialCalculator.calculate\<close>. The outcome is the exception raised or the
  result returned, together with the store the call leaves behind. The product
  \<^verbatim>\<open>units_needed * material.price_per_unit\<close> is one of an \<^verbatim>\<open>int\<close> and a float.
\<close>

definition calculate ::
  "material_calculator \<Rightarrow> pyvalue \<Rightarrow> pyfloat \<Rightarrow> store
     \<Rightarrow> (error + calculation_result) \<times> store" where
  "calculate self mat ar s =
     (if fle ar (Fin 0) then (Inl ValueError, s)
      else if \<not> isinstance_Material mat then (Inl ValueError, s)
      else case mat of
        Instance m \<Rightarrow>
          (case truediv (priv_reserve_percent self) (Fin 100) of
             Inl e \<Rightarrow> (Inl e, s)
           | Inr fraction \<Rightarrow>
               let area_with_reserve = fmul ar (fadd (Fin 1) fraction)
               in (case truediv area_with_reserve (unit_coverage m) of
                     Inl e \<Rightarrow> (Inl e, s)
                   | Inr quot \<Rightarrow>
                       (case math_ceil quot of
                          Inl e \<Rightarrow> (Inl e, s)
                        | Inr units \<Rightarrow>
                            (let cost = fmul (float_of_int units) (price_per_unit m);
                                 result = \<lparr>material = m, area = ar, units_needed = units,
                                           total_cost = cost,
                                           reserve_percent = priv_reserve_percent self\<rparr>
                             in (Inr result,
                                 append_at (priv_calculations_history self) result s)))))
      | _ \<Rightarrow> (Inl ValueError, s))"

text \<open>
  \<^verbatim>\<open>get_history\<close>: \<^verbatim>\<open>list.copy\<close> makes a new list object with the same
  contents and returns it (its address). \<^verbatim>\<open>clear_history\<close>:
  \<^verbatim>\<open>list.clear\<close> empties the history object in place.
\<close>

definition get_history :: "material_calculator \<Rightarrow> store \<Rightarrow> addr \<times> store" where
  "get_history self s = alloc (s ! priv_calculations_history self) s"

definition clear_history :: "material_calculator \<Rightarrow> store \<Rightarrow> store" where
  "clear_history self s = s[priv_calculations_history self := []]"

text \<open>
  What a caller can do to a list object it holds (\<^verbatim>\<open>append\<close>, \<^verbatim>\<open>pop\<close>,
  \<^verbatim>\<open>clear\<close>, item assignment, ...): the contents at that address become some
  other list.
\<close>

definition mutate :: "addr \<Rightarrow> calculation_result list \<Rightarrow> store \<Rightarrow> store" where
  "mutate a xs s = s[a := xs]"

text \<open>
  The loop of \<^verbatim>\<open>compare_materials\<close>: \<^verbatim>\<open>results\<close> is a local list, the
  exception of a failing \<^verbatim>\<open>calculate\<close> leaves the loop and the function.
\<close>

fun compare_loop ::
  "material_calculator \<Rightarrow> pyvalue list \<Rightarrow> pyfloat \<Rightarrow> calculation_result list \<Rightarrow> store
     \<Rightarrow> (error + calculation_result list) \<times> store" where
  "compare_loop self [] ar results s = (Inr results, s)"
| "compare_loop self (mat # mats) ar results s =
     (case calculate self mat ar s of
        (Inl e, s') \<Rightarrow> (Inl e, s')
      | (Inr result, s') \<Rightarrow> compare_loop self mats ar (results @ [result]) s')"

text \<open>
  \<^verbatim>\<open>results.sort(key=lambda r: r.total_cost)\<close> is the library's stable sort, which
  compares the keys with \<^verbatim>\<open><\<close>. On floats that are not NaN this is the order of
  \<open>cost_key\<close>, and insertion sort by it computes the same list. When a key is NaN the
  order that \<^verbatim>\<open>list.sort\<close> leaves depends on its implementation; the model then
  puts the NaN keys last.
\<close>

fun cost_key :: "pyfloat \<Rightarrow> int \<times> rat" where
  "cost_key NegInf = (- 1, 0)"
| "cost_key (Fin a) = (0, a)"
| "cost_key PosInf = (1, 0)"
| "cost_key NaN = (2, 0)"

definition sort_by_total_cost :: "calculation_result list \<Rightarrow> calculation_result list" where
  "sort_by_total_cost results = sort_key (\<lambda>r. cost_key (total_cost r)) results"

definition compare_materials ::
  "material_calculator \<Rightarrow> pyvalue list \<Rightarrow> pyfloat \<Rightarrow> store
     \<Rightarrow> (error + calculation_result list) \<times> store" where
  "compare_materials self materials ar s =
     (if materials = [] then (Inl ValueError, s)
      else case compare_loop self materials ar [] s of
        (Inl e, s') \<Rightarrow> (Inl e, s')
      | (Inr results, s') \<Rightarrow> (Inr (sort_by_total_cost results), s'))"

subsection \<open>calculations.py: RoomCalculator\<close>

text \<open>
  \<^verbatim>\<open>calculate_wall_area\<close> reads nothing of the object it is called on. The defaults
  of \<^verbatim>\<open>door_area\<close> and \<^verbatim>\<open>window_area\<close> are 0.
\<close>

definition calculate_wall_area ::
  "pyfloat \<Rightarrow> pyfloat \<Rightarrow> pyfloat \<Rightarrow> pyfloat \<Rightarrow> error + pyfloat" where
  "calculate_wall_area perimeter height door_area window_area =
     (if fle perimeter (Fin 0) \<or> fle height (Fin 0) then Inl ValueError
      else if flt door_area (Fin 0) \<or> flt window_area (Fin 0) then Inl ValueError
      else
        let total_wall_area = fmul perimeter height;
            result_area = fsub (fsub total_wall_area door_area) window_area
        in if fle result_area (Fin 0) then Inl ValueError else Inr result_area)"

subsection \<open>Notions of the specification\<close>

text \<open>
  The value of \<open>area * (1 + reserve_percent / 100) / unit_coverage\<close> as the code computes
  it, or the exception of one of the two divisions.
\<close>

definition units_quotient :: "material_calculator \<Rightarrow> material \<Rightarrow> pyfloat \<Rightarrow> error + pyfloat" where
  "units_quotient self m ar =
     (case truediv (priv_reserve_percent self) (Fin 100) of
        Inl e \<Rightarrow> Inl e
      | Inr fraction \<Rightarrow> truediv (fmul ar (fadd (Fin 1) fraction)) (unit_coverage m))"

text \<open>The result for a number of units: \<open>total_cost = units_needed * price_per_unit\<close>.\<close>

definition result_for ::
  "material_calculator \<Rightarrow> material \<Rightarrow> pyfloat \<Rightarrow> int \<Rightarrow> calculation_result" where
  "result_for self m ar units =
     \<lparr>material = m, area = ar, units_needed = units,
      total_cost = fmul (float_of_int units) (price_per_unit m),
      reserve_percent = priv_reserve_percent self\<rparr>"

text \<open>
  What a call of \<open>calculate\<close> returns or raises; it does not depend on the store.
\<close>

definition outcome :: "material_calculator \<Rightarrow> pyvalue \<Rightarrow> pyfloat \<Rightarrow> error + calculation_result" where
  "outcome self mat ar = fst (calculate self mat ar [])"

text \<open>The invariant that the specification's data model gives for a material.\<close>

definition valid_material :: "material \<Rightarrow> bool" where
  "valid_material m = (flt (Fin 0) (unit_coverage m) \<and> fle (Fin 0) (price_per_unit m))"

section \<open>Properties\<close>

subsection \<open>Rounding\<close>

lemma pow2_pos [simp]: "0 < pow2 e"
  by (simp add: pow2_def)

lemma pow2_nonneg [simp]: "0 \<le> pow2 e"
  by (simp add: pow2_def)

lemma pow2_Suc: "pow2 (e + 1) = 2 * pow2 e"
proof (cases "0 \<le> e")
  case True
  then show ?thesis by (simp add: pow2_def nat_add_distrib)
next
  case False
  then have "nat (- e) = Suc (nat (- (e + 1)))" by simp
  then show ?thesis using False
    by (cases "e = - 1") (simp_all add: pow2_def)
qed

lemma pow2_mono: "a \<le> b \<Longrightarrow> pow2 a \<le> pow2 b"
proof -
  have step: "pow2 a \<le> pow2 (a + int n)" for n
  proof (induction n)
    case 0
    then show ?case by simp
  next
    case (Suc n)
    have "a + int (Suc n) = (a + int n) + 1" by simp
    then have "pow2 (a + int (Suc n)) = 2 * pow2 (a + int n)"
      by (simp only: pow2_Suc)
    with Suc show ?case using pow2_pos [of "a + int n"] by linarith
  qed
  assume "a \<le> b"
  then obtain n where "b = a + int n" by (metis zle_iff_zadd)
  with step show ?thesis by simp
qed

lemma pow2_unique:
  assumes "pow2 a \<le> x" and "x < pow2 (a + 1)" and "pow2 b \<le> x" and "x < pow2 (b + 1)"
  shows "a = b"
proof (rule ccontr)
  assume "a \<noteq> b"
  then consider "a + 1 \<le> b" | "b + 1 \<le> a" by linarith
  then show False
  proof cases
    case 1
    then have "pow2 (a + 1) \<le> pow2 b" by (rule pow2_mono)
    with assms show False by linarith
  next
    case 2
    then have "pow2 (b + 1) \<le> pow2 a" by (rule pow2_mono)
    with assms show False by linarith
  qed
qed

text \<open>\<open>ilog2\<close> is the binary exponent.\<close>

lemma ilog2_bounds:
  assumes "0 < x"
  shows "pow2 (ilog2 x) \<le> x \<and> x < pow2 (ilog2 x + 1)"
proof (cases "1 \<le> x")
  case True
  let ?n = "\<lfloor>x\<rfloor>"
  let ?b = "bitlen ?n"
  from True have n: "0 < ?n" by simp
  from bitlen_bounds [OF n] have lo: "2 ^ nat (?b - 1) \<le> ?n" and hi: "?n < 2 ^ nat ?b"
    by simp_all
  from n have b1: "1 \<le> ?b" by (simp add: bitlen_ge_iff_power)
  from lo have "(of_int (2 ^ nat (?b - 1)) :: rat) \<le> of_int ?n" by (simp only: of_int_le_iff)
  also have "\<dots> \<le> x" by simp
  finally have l: "pow2 (?b - 1) \<le> x" using b1 by (simp add: pow2_def)
  from hi have "?n + 1 \<le> 2 ^ nat ?b" by simp
  then have "(of_int (?n + 1) :: rat) \<le> of_int (2 ^ nat ?b)" by (simp only: of_int_le_iff)
  moreover have "x < of_int (?n + 1)" by linarith
  ultimately have h: "x < pow2 ?b" using b1 by (simp add: pow2_def)
  from True l h show ?thesis by (simp add: ilog2_def)
next
  case False
  let ?y = "1 / x"
  let ?n = "\<lceil>?y\<rceil> - 1"
  let ?b = "bitlen ?n"
  from False assms have y: "1 < ?y" by simp
  then have n: "0 < ?n" by (simp add: less_ceiling_iff)
  from bitlen_bounds [OF n] have lo: "2 ^ nat (?b - 1) \<le> ?n" and hi: "?n < 2 ^ nat ?b"
    by simp_all
  from n have b1: "1 \<le> ?b" by (simp add: bitlen_ge_iff_power)
  have c1: "?y \<le> of_int \<lceil>?y\<rceil>" by (rule le_of_int_ceiling)
  have c2: "of_int \<lceil>?y\<rceil> - 1 < ?y" by linarith
  have e1: "(of_int (2 ^ nat ?b) :: rat) = 2 ^ nat ?b" by simp
  have e2: "(of_int (2 ^ nat (?b - 1)) :: rat) = 2 ^ nat (?b - 1)" by simp
  from hi have "\<lceil>?y\<rceil> \<le> 2 ^ nat ?b" by simp
  then have "(of_int \<lceil>?y\<rceil> :: rat) \<le> of_int (2 ^ nat ?b)" by (simp only: of_int_le_iff)
  with c1 e1 have yh: "?y \<le> 2 ^ nat ?b" by linarith
  from lo have "(of_int (2 ^ nat (?b - 1)) :: rat) \<le> of_int ?n" by (simp only: of_int_le_iff)
  moreover have "(of_int ?n :: rat) = of_int \<lceil>?y\<rceil> - 1" by simp
  ultimately have yl: "2 ^ nat (?b - 1) < ?y" using c2 e2 by linarith
  have p1: "(0::rat) < 2 ^ nat ?b" and p2: "(0::rat) < 2 ^ nat (?b - 1)" by simp_all
  from yh assms p1 have l: "1 / 2 ^ nat ?b \<le> x"
    by (simp add: field_simps)
  from yl assms p2 have h: "x < 1 / 2 ^ nat (?b - 1)"
    by (simp add: field_simps)
  have "pow2 (- ?b) = 1 / 2 ^ nat ?b" using b1 by (simp add: pow2_def)
  moreover have "pow2 (- ?b + 1) = 1 / 2 ^ nat (?b - 1)"
    using b1 by (cases "?b = 1") (simp_all add: pow2_def)
  ultimately show ?thesis using False l h by (simp add: ilog2_def)
qed

lemma ilog2_eq:
  assumes "pow2 e \<le> x" and "x < pow2 (e + 1)"
  shows "ilog2 x = e"
proof -
  from assms(1) have "0 < x" using pow2_pos [of e] by linarith
  from ilog2_bounds [OF this] assms show ?thesis
    by (metis pow2_unique)
qed

text \<open>
  Rounding with the exponent \<open>e\<close> and the rounded mantissa \<open>n\<close> given: this is how the
  roundings of the worked examples are evaluated.
\<close>

lemma round_half_even_cert:
  assumes "2 * \<bar>x - of_int n\<bar> < 1 \<or> (2 * \<bar>x - of_int n\<bar> = 1 \<and> even n)"
  shows "round_half_even x = n"
proof -
  from assms have le: "2 * \<bar>x - of_int n\<bar> \<le> 1" by auto
  consider (lo) "x < of_int n" | (hi) "of_int n \<le> x" by linarith
  then show ?thesis
  proof cases
    case hi
    then have a: "\<bar>x - of_int n\<bar> = x - of_int n" by simp
    from le have "x < of_int n + 1" unfolding a by simp
    with hi have f: "\<lfloor>x\<rfloor> = n" by (simp add: floor_unique)
    from assms have "x - of_int n < 1 / 2 \<or> (x - of_int n = 1 / 2 \<and> even n)"
      unfolding a by auto
    then show ?thesis by (auto simp add: round_half_even_def f Let_def)
  next
    case lo
    then have a: "\<bar>x - of_int n\<bar> = of_int n - x" by simp
    have c: "(of_int (n - 1) :: rat) = of_int n - 1" by simp
    from le have "of_int (n - 1) \<le> x" unfolding a c by simp
    moreover from lo have "x < of_int (n - 1) + 1" unfolding c by simp
    ultimately have f: "\<lfloor>x\<rfloor> = n - 1" by (rule floor_unique)
    from assms have "1 / 2 < x - of_int (n - 1) \<or> (x - of_int (n - 1) = 1 / 2 \<and> odd (n - 1))"
      unfolding a c by auto
    then show ?thesis by (auto simp add: round_half_even_def f Let_def)
  qed
qed

lemma round64_cert:
  assumes "pow2 e \<le> \<bar>x\<bar>" and "\<bar>x\<bar> < pow2 (e + 1)"
    and "2 * \<bar>x / pow2 (max e (- 1022) - 52) - of_int n\<bar> < 1
         \<or> (2 * \<bar>x / pow2 (max e (- 1022) - 52) - of_int n\<bar> = 1 \<and> even n)"
  shows "round64 x =
     (let y = of_int n * pow2 (max e (- 1022) - 52)
      in if pow2 1024 \<le> \<bar>y\<bar> then (if 0 < x then PosInf else NegInf) else Fin y)"
proof -
  from assms(1) have "0 < \<bar>x\<bar>" using pow2_pos [of e] by linarith
  then have "x \<noteq> 0" by simp
  moreover from assms(1,2) have "ilog2 \<bar>x\<bar> = e" by (rule ilog2_eq)
  moreover from assms(3) have "round_half_even (x / pow2 (max e (- 1022) - 52)) = n"
    by (rule round_half_even_cert)
  ultimately show ?thesis by (simp add: round64_def Let_def)
qed

lemma round64_0 [simp]: "round64 0 = Fin 0"
  by (simp add: round64_def)

text \<open>Rounding keeps the sign: what is not negative does not round to a negative float.\<close>

lemma round_half_even_nonneg: "0 \<le> x \<Longrightarrow> 0 \<le> round_half_even x"
  by (simp add: round_half_even_def Let_def)

lemma round64_not_negative: "0 \<le> x \<Longrightarrow> \<not> flt (round64 x) (Fin 0)"
proof -
  assume x: "0 \<le> x"
  let ?ulp = "pow2 (max (ilog2 \<bar>x\<bar>) (- 1022) - 52)"
  from x have "0 \<le> x / ?ulp" by simp
  then have "0 \<le> round_half_even (x / ?ulp)" by (rule round_half_even_nonneg)
  then have "0 \<le> of_int (round_half_even (x / ?ulp)) * ?ulp" by simp
  with x show ?thesis by (simp add: round64_def Let_def not_less)
qed

subsection \<open>The roundings of the worked examples\<close>

text \<open>
  One lemma for every exact value that an operation of a worked example rounds, and for
  every ceiling taken there; each rounding is checked from its exponent and its mantissa.
\<close>

lemma round_1: "round64 (53 / 100) = Fin (2386907802506363 / 4503599627370496)"
  by (subst round64_cert [where e = "- 1" and n = "4773815605012726"]) (simp_all add: pow2_def)

lemma round_2: "round64 (201 / 20) = Fin (2828823515942093 / 281474976710656)"
  by (subst round64_cert [where e = "3" and n = "5657647031884186"]) (simp_all add: pow2_def)

lemma round_3: "round64 (6752140922115664723912572037759 / 1267650600228229401496703205376) = Fin (5997105853797237 / 1125899906842624)"
  by (subst round64_cert [where e = "2" and n = "5997105853797237"]) (simp_all add: pow2_def)

lemma round_4: "round64 (10653 / 2000) = Fin (5997105853797237 / 1125899906842624)"
  by (subst round64_cert [where e = "2" and n = "5997105853797237"]) (simp_all add: pow2_def)

lemma round_5: "round64 (3 / 10) = Fin (5404319552844595 / 18014398509481984)"
  by (subst round64_cert [where e = "- 2" and n = "5404319552844595"]) (simp_all add: pow2_def)

lemma round_6: "round64 (29206669829258403248756220714025 / 324518553658426726783156020576256) = Fin (3242591731706757 / 36028797018963968)"
  by (subst round64_cert [where e = "- 4" and n = "6485183463413514"]) (simp_all add: pow2_def)

lemma round_7: "round64 8 = Fin 8"
  by (subst round64_cert [where e = "3" and n = "4503599627370496"]) (simp_all add: pow2_def)

lemma round_8: "round64 (3242591731706757 / 4503599627370496) = Fin (3242591731706757 / 4503599627370496)"
  by (subst round64_cert [where e = "- 1" and n = "6485183463413514"]) (simp_all add: pow2_def)

lemma round_9: "round64 (18 / 25) = Fin (3242591731706757 / 4503599627370496)"
  by (subst round64_cert [where e = "- 1" and n = "6485183463413514"]) (simp_all add: pow2_def)

lemma round_10: "round64 25 = Fin 25"
  by (subst round64_cert [where e = "4" and n = "7036874417766400"]) (simp_all add: pow2_def)

lemma round_11: "round64 20 = Fin 20"
  by (subst round64_cert [where e = "4" and n = "5629499534213120"]) (simp_all add: pow2_def)

lemma round_12: "round64 15 = Fin 15"
  by (subst round64_cert [where e = "3" and n = "8444249301319680"]) (simp_all add: pow2_def)

lemma round_13: "round64 13 = Fin 13"
  by (subst round64_cert [where e = "3" and n = "7318349394477056"]) (simp_all add: pow2_def)

lemma round_14: "round64 (1 / 10) = Fin (3602879701896397 / 36028797018963968)"
  by (subst round64_cert [where e = "- 4" and n = "7205759403792794"]) (simp_all add: pow2_def)

lemma round_15: "round64 (10808639105689191 / 36028797018963968) = Fin (1351079888211149 / 4503599627370496)"
  by (subst round64_cert [where e = "- 2" and n = "5404319552844596"]) (simp_all add: pow2_def)

lemma round_16: "round64 (1 / 18014398509481984) = Fin (1 / 18014398509481984)"
  by (subst round64_cert [where e = "- 54" and n = "4503599627370496"]) (simp_all add: pow2_def)

lemma round_17: "round64 (39631676720860365 / 36028797018963968) = Fin (2476979795053773 / 2251799813685248)"
  by (subst round64_cert [where e = "0" and n = "4953959590107546"]) (simp_all add: pow2_def)

lemma round_18: "round64 (2317 / 100) = Fin (1630443802596475 / 70368744177664)"
  by (subst round64_cert [where e = "4" and n = "6521775210385900"]) (simp_all add: pow2_def)

lemma round_19: "round64 (4038576356002110967819645250175 / 158456325028528675187087900672) = Fin (7173952731424491 / 281474976710656)"
  by (subst round64_cert [where e = "4" and n = "7173952731424491"]) (simp_all add: pow2_def)

lemma round_20: "round64 (9565270308565988 / 1999035284599079) = Fin (5387367112681491 / 1125899906842624)"
  by (subst round64_cert [where e = "2" and n = "5387367112681491"]) (simp_all add: pow2_def)

lemma round_21: "round64 5 = Fin 5"
  by (subst round64_cert [where e = "2" and n = "5629499534213120"]) (simp_all add: pow2_def)

lemma round_22: "round64 6000 = Fin 6000"
  by (subst round64_cert [where e = "12" and n = "6597069766656000"]) (simp_all add: pow2_def)

lemma round_23: "round64 (61924494876344325 / 1125899906842624) = Fin (7740561859543041 / 140737488355328)"
  by (subst round64_cert [where e = "5" and n = "7740561859543041"]) (simp_all add: pow2_def)

lemma round_24: "round64 (7740561859543041 / 140737488355328) = Fin (7740561859543041 / 140737488355328)"
  by (subst round64_cert [where e = "5" and n = "7740561859543041"]) (simp_all add: pow2_def)

lemma round_25: "round64 56 = Fin 56"
  by (subst round64_cert [where e = "5" and n = "7881299347898368"]) (simp_all add: pow2_def)

lemma round_26: "round64 (7740561859543041 / 14073748835532800) = Fin (2476979795053773 / 4503599627370496)"
  by (subst round64_cert [where e = "- 1" and n = "4953959590107546"]) (simp_all add: pow2_def)

lemma round_27: "round64 1 = Fin 1"
  by (subst round64_cert [where e = "0" and n = "4503599627370496"]) (simp_all add: pow2_def)

lemma round_28: "round64 (111 / 2) = Fin (111 / 2)"
  by (subst round64_cert [where e = "5" and n = "7810930603720704"]) (simp_all add: pow2_def)

lemma round_29: "round64 (7740561859543041 / 281474976710656) = Fin (7740561859543041 / 281474976710656)"
  by (subst round64_cert [where e = "4" and n = "7740561859543041"]) (simp_all add: pow2_def)

lemma round_30: "round64 28 = Fin 28"
  by (subst round64_cert [where e = "4" and n = "7881299347898368"]) (simp_all add: pow2_def)

lemma round_31: "round64 2 = Fin 2"
  by (subst round64_cert [where e = "1" and n = "4503599627370496"]) (simp_all add: pow2_def)

lemma round_32: "round64 179769313486231590772930519078902473361797697894230657273430081157732675805500963132708477322407536021120113879871393357658789768814416622492847430639474124377767893424865485276302219601246094119453082952085005768838150682342462881473913110540827237163350510684586298239947245938479716304835356329624224137216 = PosInf"
  by (subst round64_cert [where e = "1024" and n = "4503599627370496"]) (simp_all add: pow2_def)

lemma round_33: "round64 (2476979795053773 / 455769356286876421213391376429838886925099892492896311359073203585443629295319008244476198689326433780162368020962991167191110613607139517741900808291216386005762763108913764753265553690611976382226145357950239793122692242822302122332514317008108070827274337186476319071835298862424880252130670164301449339557783552772064084296510505746432) = Fin (1 / 202402253307310618352495346718917307049556649764142118356901358027430339567995346891960383701437124495187077864316811911389808737385793476867013399940738509921517424276566361364466907742093216341239767678472745068562007483424692698618103355649159556340810056512358769552333414615230502532186327508646006263307707741093494784)"
  by (subst round64_cert [where e = "- 1074" and n = "1"]) (simp_all add: pow2_def)

lemma round_34: "round64 (1 / 809609013229242473409981386875669228198226599056568473427605432109721358271981387567841534805748497980748311457267247645559234949543173907468053599762954039686069697106265445457867630968372865364959070713890980274248029933698770794472413422596638225363240226049435078209333658460922010128745310034584025053230830964373979136) = Fin 0"
  by (subst round64_cert [where e = "- 1076" and n = "0"]) (simp_all add: pow2_def)

lemma round_35: "round64 4 = Fin 4"
  by (subst round64_cert [where e = "2" and n = "4503599627370496"]) (simp_all add: pow2_def)

lemma round_36: "round64 (193 / 1000) = Fin (3476778912330023 / 18014398509481984)"
  by (subst round64_cert [where e = "- 3" and n = "6953557824660046"]) (simp_all add: pow2_def)

lemma round_37: "round64 (69 / 50) = Fin (1553741871442821 / 1125899906842624)"
  by (subst round64_cert [where e = "0" and n = "6214967485771284"]) (simp_all add: pow2_def)

lemma round_38: "round64 (5402016973836585620229926114883 / 20282409603651670423947251286016) = Fin (4797954899015431 / 18014398509481984)"
  by (subst round64_cert [where e = "- 2" and n = "4797954899015431"]) (simp_all add: pow2_def)

lemma round_39: "round64 (4797954899015431 / 2251799813685248) = Fin (4797954899015431 / 2251799813685248)"
  by (subst round64_cert [where e = "1" and n = "4797954899015431"]) (simp_all add: pow2_def)

lemma round_40: "round64 (1 / 17218479456385750618067377696052635483579924745448689921733236816400740691241745619397484537236046173286370919031961587788584927290816661024991609882728717344659503471655990880884679896520055123906467064419056526231345685268240569209892573766037966584735183775739433978714578587782701380797240772477647874555986712746271362892227516205318914435913511141036261376) = Fin 0"
  by (subst round64_cert [where e = "- 1200" and n = "0"]) (simp_all add: pow2_def)

lemma ceil_1: "\<lceil>5387367112681491 / 1125899906842624 :: rat\<rceil> = 5"
  by (simp add: ceiling_eq_iff)

lemma ceil_2: "\<lceil>7740561859543041 / 140737488355328 :: rat\<rceil> = 56"
  by (simp add: ceiling_eq_iff)

lemma ceil_3: "\<lceil>2476979795053773 / 4503599627370496 :: rat\<rceil> = 1"
  by (simp add: ceiling_eq_iff)

lemma ceil_4: "\<lceil>7740561859543041 / 281474976710656 :: rat\<rceil> = 28"
  by (simp add: ceiling_eq_iff)

lemmas evals =
  round_1 round_2 round_3 round_4 round_5 round_6 round_7 round_8
  round_9 round_10 round_11 round_12 round_13 round_14 round_15 round_16
  round_17 round_18 round_19 round_20 round_21 round_22 round_23 round_24
  round_25 round_26 round_27 round_28 round_29 round_30 round_31 round_32
  round_33 round_34 round_35 round_36 round_37 round_38 round_39 round_40
  ceil_1 ceil_2 ceil_3 ceil_4

subsection \<open>Signs and comparisons\<close>

lemma fadd_not_negative:
  "\<not> flt x (Fin 0) \<Longrightarrow> \<not> flt y (Fin 0) \<Longrightarrow> \<not> flt (fadd x y) (Fin 0)"
  by (cases x; cases y) (simp_all add: round64_not_negative)

lemma fmul_not_negative:
  "\<not> flt x (Fin 0) \<Longrightarrow> \<not> flt y (Fin 0) \<Longrightarrow> \<not> flt (fmul x y) (Fin 0)"
  by (cases x; cases y) (simp_all add: round64_not_negative)

lemma fdiv_not_negative:
  "\<not> flt x (Fin 0) \<Longrightarrow> flt (Fin 0) y \<Longrightarrow> \<not> flt (fdiv x y) (Fin 0)"
  by (cases x; cases y) (simp_all add: round64_not_negative)

lemma float_of_int_not_negative: "0 \<le> n \<Longrightarrow> \<not> flt (float_of_int n) (Fin 0)"
  by (simp add: float_of_int_def round64_not_negative)

subsection \<open>MaterialCalculator.calculate\<close>

lemma calculate_Instance:
  "calculate self (Instance m) ar s =
     (if fle ar (Fin 0) then (Inl ValueError, s)
      else case units_quotient self m ar of
        Inl e \<Rightarrow> (Inl e, s)
      | Inr x \<Rightarrow>
          (case math_ceil x of
             Inl e \<Rightarrow> (Inl e, s)
           | Inr units \<Rightarrow>
               (Inr (result_for self m ar units),
                append_at (priv_calculations_history self) (result_for self m ar units) s)))"
  by (simp add: calculate_def units_quotient_def result_for_def Let_def split: sum.splits)

lemma calculate_not_Material:
  "\<not> isinstance_Material mat \<Longrightarrow> calculate self mat ar s = (Inl ValueError, s)"
  by (simp add: calculate_def)

lemma units_quotient_not_negative:
  assumes "flt (Fin 0) (unit_coverage m)" and "flt (Fin 0) ar"
    and "fle (Fin 0) (priv_reserve_percent self)"
  shows "\<exists>x. units_quotient self m ar = Inr x \<and> \<not> flt x (Fin 0)"
proof -
  let ?r = "priv_reserve_percent self"
  from assms(3) have r: "\<not> flt ?r (Fin 0)" by (cases ?r) auto
  have h: "flt (Fin 0) (Fin 100)" by simp
  from assms(2) have a: "\<not> flt ar (Fin 0)" by (cases ar) auto
  from assms(1) have c: "unit_coverage m \<noteq> Fin 0" by (cases "unit_coverage m") auto
  have one: "\<not> flt (Fin 1) (Fin 0)" by simp
  have "\<not> flt (fdiv ?r (Fin 100)) (Fin 0)" using r h by (rule fdiv_not_negative)
  with one have "\<not> flt (fadd (Fin 1) (fdiv ?r (Fin 100))) (Fin 0)" by (rule fadd_not_negative)
  with a have "\<not> flt (fmul ar (fadd (Fin 1) (fdiv ?r (Fin 100)))) (Fin 0)"
    by (rule fmul_not_negative)
  then have "\<not> flt (fdiv (fmul ar (fadd (Fin 1) (fdiv ?r (Fin 100)))) (unit_coverage m)) (Fin 0)"
    using assms(1) by (rule fdiv_not_negative)
  with c show ?thesis by (simp add: units_quotient_def truediv_def)
qed

lemma units_quotient_error:
  "units_quotient self m ar = Inl e \<Longrightarrow> e = ZeroDivisionError \<and> unit_coverage m = Fin 0"
  by (auto simp add: units_quotient_def truediv_def split: if_splits)

lemmas example_defs = calculate_def units_quotient_def result_for_def truediv_def
  float_of_int_def Material_def Wallpaper_def Wallpaper_default_def Tile_def Tile_default_def
  Laminate_def MaterialCalculator_def MaterialCalculator_default_def alloc_def append_at_def
  Let_def

text \<open>
  C1 (as amended). Take a material with \<open>unit_coverage > 0\<close> and
  \<open>price_per_unit \<ge> 0\<close>, an area \<open>> 0\<close> and a calculator whose reserve \<open>r\<close> lies
  between 0 and 100. Let \<open>x\<close> be the float that the code computes for
  \<open>area * (1 + r / 100) / unit_coverage\<close>; no division raises, and \<open>x\<close> is not
  negative. If \<open>x\<close> is finite, \<open>calculate\<close> returns, and appends to the history, the
  result with \<open>units_needed = ceil(x)\<close> and with \<open>total_cost\<close> the float product
  \<open>units_needed * price_per_unit\<close>; \<open>units_needed\<close> is not negative, it is positive
  unless \<open>x\<close> is zero, and \<open>total_cost\<close> is not negative. If \<open>x\<close> is infinite,
  \<open>calculate\<close> raises \<open>OverflowError\<close>, and if \<open>x\<close> is NaN it raises
  \<open>ValueError\<close>; the store is then left as it was.
\<close>

theorem calculate_formula:
  assumes "flt (Fin 0) (unit_coverage m)" and "fle (Fin 0) (price_per_unit m)"
    and "flt (Fin 0) ar"
    and "fle (Fin 0) (priv_reserve_percent self)" and "fle (priv_reserve_percent self) (Fin 100)"
  shows "\<exists>x. units_quotient self m ar = Inr x \<and>
     (case x of
        Fin q \<Rightarrow>
          calculate self (Instance m) ar s =
            (Inr (result_for self m ar \<lceil>q\<rceil>),
             append_at (priv_calculations_history self) (result_for self m ar \<lceil>q\<rceil>) s)
          \<and> units_needed (result_for self m ar \<lceil>q\<rceil>) = \<lceil>q\<rceil>
          \<and> total_cost (result_for self m ar \<lceil>q\<rceil>)
              = fmul (float_of_int \<lceil>q\<rceil>) (price_per_unit m)
          \<and> 0 \<le> q \<and> 0 \<le> \<lceil>q\<rceil> \<and> (0 < \<lceil>q\<rceil>) = (0 < q)
          \<and> \<not> flt (total_cost (result_for self m ar \<lceil>q\<rceil>)) (Fin 0)
      | PosInf \<Rightarrow> calculate self (Instance m) ar s = (Inl OverflowError, s)
      | NegInf \<Rightarrow> False
      | NaN \<Rightarrow> calculate self (Instance m) ar s = (Inl ValueError, s))"
proof -
  from units_quotient_not_negative [OF assms(1,3,4)]
  obtain x where x: "units_quotient self m ar = Inr x" and nn: "\<not> flt x (Fin 0)" by blast
  from assms(3) have a: "\<not> fle ar (Fin 0)" by (cases ar) auto
  from assms(2) have p: "\<not> flt (price_per_unit m) (Fin 0)" by (cases "price_per_unit m") auto
  show ?thesis
  proof (cases x)
    case (Fin q)
    with nn have q: "0 \<le> q" by simp
    then have u: "0 \<le> \<lceil>q\<rceil>" by simp
    then have "\<not> flt (float_of_int \<lceil>q\<rceil>) (Fin 0)" by (rule float_of_int_not_negative)
    then have "\<not> flt (fmul (float_of_int \<lceil>q\<rceil>) (price_per_unit m)) (Fin 0)"
      using p by (rule fmul_not_negative)
    with x Fin a q u show ?thesis
      by (simp add: calculate_Instance result_for_def)
  next
    case PosInf
    with x a show ?thesis by (simp add: calculate_Instance)
  next
    case NegInf
    with nn show ?thesis by simp
  next
    case NaN
    with x a show ?thesis by (simp add: calculate_Instance)
  qed
qed

text \<open>
  The example of the specification: 23.17 square metres, a reserve of 10 percent and rolls
  of 0.53 by 10.05 metres at 1200 need 5 rolls, which cost 6000.
\<close>

theorem calculate_formula_witness:
  "calculate (fst (MaterialCalculator_default []))
     (Instance (Wallpaper_default ''vinyl'' (Fin 1200))) (round64 (2317 / 100))
     (snd (MaterialCalculator_default []))
   = (Inr \<lparr>material = Wallpaper_default ''vinyl'' (Fin 1200), area = round64 (2317 / 100),
            units_needed = 5, total_cost = Fin 6000, reserve_percent = Fin 10\<rparr>,
      [[\<lparr>material = Wallpaper_default ''vinyl'' (Fin 1200), area = round64 (2317 / 100),
            units_needed = 5, total_cost = Fin 6000, reserve_percent = Fin 10\<rparr>]])"
  using calculate_formula
    [of "Wallpaper_default ''vinyl'' (Fin 1200)" "round64 (2317 / 100)"
        "fst (MaterialCalculator_default [])" "snd (MaterialCalculator_default [])"]
  by (simp add: example_defs evals)

text \<open>
  C1 as it is written fails in three ways, each with a reserve inside the range.
  The units are the ceiling of the rounded quotient, not of the exact one: with a reserve
  of 10, an area of 50 and a material that covers 1 and costs 1, the code computes
  \<open>50 * (1 + 10 / 100)\<close> as 55.00000000000001 and returns 56 units, where
  \<open>ceil(50 * 1.1 / 1)\<close> is 55. A result is not always returned: with a reserve of 100
  and the area \<open>2 ^ 1023\<close> the product overflows and \<open>math.ceil\<close> raises
  \<open>OverflowError\<close>. The units are not always positive: with a reserve of 10, the
  smallest positive float as area and a material that covers 4, the quotient underflows
  to zero and 0 units are returned.
\<close>

theorem calculate_formula_counterexample:
  "calculate \<lparr>priv_reserve_percent = Fin 10, priv_calculations_history = 0\<rparr>
       (Instance (Material ''m'' (Fin 1) (Fin 1))) (Fin 50) [[]]
     = (Inr \<lparr>material = Material ''m'' (Fin 1) (Fin 1), area = Fin 50, units_needed = 56,
              total_cost = Fin 56, reserve_percent = Fin 10\<rparr>,
        [[\<lparr>material = Material ''m'' (Fin 1) (Fin 1), area = Fin 50, units_needed = 56,
              total_cost = Fin 56, reserve_percent = Fin 10\<rparr>]])
   \<and> \<lceil>50 * (1 + 10 / 100) / 1 :: rat\<rceil> = 55
   \<and> calculate \<lparr>priv_reserve_percent = Fin 100, priv_calculations_history = 0\<rparr>
       (Instance (Material ''m'' (Fin 1) (Fin 1))) (Fin (2 ^ 1023)) [[]]
     = (Inl OverflowError, [[]])
   \<and> calculate \<lparr>priv_reserve_percent = Fin 10, priv_calculations_history = 0\<rparr>
       (Instance (Material ''m'' (Fin 1) (Fin 4))) (Fin (1 / 2 ^ 1074)) [[]]
     = (Inr \<lparr>material = Material ''m'' (Fin 1) (Fin 4), area = Fin (1 / 2 ^ 1074),
              units_needed = 0, total_cost = Fin 0, reserve_percent = Fin 10\<rparr>,
        [[\<lparr>material = Material ''m'' (Fin 1) (Fin 4), area = Fin (1 / 2 ^ 1074),
              units_needed = 0, total_cost = Fin 0, reserve_percent = Fin 10\<rparr>]])"
  by (simp add: example_defs evals)

text \<open>
  C2 (as amended). \<open>calculate\<close> raises \<open>ValueError\<close> exactly when the area is
  \<open>\<le> 0\<close>, or the material argument is not an instance of \<open>Material\<close>, or the float
  computed for \<open>area * (1 + r / 100) / unit_coverage\<close> is NaN, on which
  \<open>math.ceil\<close> raises it. Areas \<open>0\<close> and \<open>-5\<close> are cases of the first kind.
  Whenever \<open>calculate\<close> raises, no result is returned and the store, and so the history
  of the calculator, is what it was before the call.
\<close>

theorem calculate_invalid_argument:
  "(fst (calculate self mat ar s) = Inl ValueError \<longleftrightarrow>
      fle ar (Fin 0) \<or> \<not> isinstance_Material mat
      \<or> (\<exists>m. mat = Instance m \<and> units_quotient self m ar = Inr NaN))
   \<and> (\<forall>e. fst (calculate self mat ar s) = Inl e \<longrightarrow> snd (calculate self mat ar s) = s)
   \<and> calculate self mat (Fin 0) s = (Inl ValueError, s)
   \<and> calculate self mat (Fin (- 5)) s = (Inl ValueError, s)"
proof (cases mat)
  case (Instance m)
  show ?thesis
  proof (cases "units_quotient self m ar")
    case (Inl e)
    with units_quotient_error [OF Inl] Instance show ?thesis
      by (simp add: calculate_Instance)
  next
    case (Inr x)
    with Instance show ?thesis
      by (cases x) (simp_all add: calculate_Instance)
  qed
qed (simp_all add: calculate_def)

theorem calculate_invalid_argument_witness:
  "fst (calculate \<lparr>priv_reserve_percent = Fin 10, priv_calculations_history = 0\<rparr> NoneValue
          (Fin 3) [[]]) = Inl ValueError
   \<and> snd (calculate \<lparr>priv_reserve_percent = Fin 10, priv_calculations_history = 0\<rparr> NoneValue
          (Fin 3) [[]]) = [[]]"
  using calculate_invalid_argument
    [of "\<lparr>priv_reserve_percent = Fin 10, priv_calculations_history = 0\<rparr>" NoneValue "Fin 3"
        "[[]]"]
  by simp

text \<open>
  C2 as it is written leaves no other case of \<open>ValueError\<close>. An area of NaN passes the
  test \<open>area <= 0\<close>, a valid material passes the instance test, and \<open>math.ceil\<close>
  raises \<open>ValueError\<close> on the NaN quotient.
\<close>

theorem calculate_invalid_argument_counterexample:
  "calculate \<lparr>priv_reserve_percent = Fin 10, priv_calculations_history = 0\<rparr>
     (Instance (Material ''m'' (Fin 1) (Fin 1))) NaN [[]] = (Inl ValueError, [[]])
   \<and> \<not> fle NaN (Fin 0)
   \<and> isinstance_Material (Instance (Material ''m'' (Fin 1) (Fin 1)))"
  by (simp add: example_defs evals)

text \<open>
  C10. The constructors validate nothing, so a material with \<open>unit_coverage = 0\<close> can be
  built. For such an instance and an area \<open>> 0\<close>, \<open>calculate\<close> passes both of its
  checks and the division raises \<open>ZeroDivisionError\<close>, not \<open>ValueError\<close>.
\<close>

theorem calculate_zero_coverage:
  "unit_coverage (Material nm price (Fin 0)) = Fin 0
   \<and> isinstance_Material (Instance m)
   \<and> (unit_coverage m = Fin 0 \<and> flt (Fin 0) ar \<longrightarrow>
        calculate self (Instance m) ar s = (Inl ZeroDivisionError, s))"
proof -
  have "\<not> fle ar (Fin 0)" if "flt (Fin 0) ar"
    using that by (cases ar) auto
  then show ?thesis
    by (simp add: calculate_Instance units_quotient_def truediv_def Material_def)
qed

theorem calculate_zero_coverage_witness:
  "calculate \<lparr>priv_reserve_percent = Fin 10, priv_calculations_history = 0\<rparr>
     (Instance (Material ''glue'' (Fin 250) (Fin 0))) (Fin 12) [[]]
     = (Inl ZeroDivisionError, [[]])"
  using calculate_zero_coverage
    [of "''glue''" "Fin 250" "Material ''glue'' (Fin 250) (Fin 0)" "Fin 12"
        "\<lparr>priv_reserve_percent = Fin 10, priv_calculations_history = 0\<rparr>" "[[]]"]
  by (simp add: Material_def)

subsection \<open>MaterialCalculator.compare_materials\<close>

lemma calculate_outcome:
  "calculate self mat ar s =
     (case outcome self mat ar of
        Inl e \<Rightarrow> (Inl e, s)
      | Inr r \<Rightarrow> (Inr r, append_at (priv_calculations_history self) r s))"
proof (cases mat)
  case (Instance m)
  then show ?thesis
    by (simp add: outcome_def calculate_Instance split: sum.splits)
qed (simp_all add: outcome_def calculate_def)

lemma append_at_update:
  "h < length s \<Longrightarrow> append_at h y (s[h := xs]) = s[h := xs @ [y]]"
  by (simp add: append_at_def)

lemma compare_loop_ok:
  assumes "h = priv_calculations_history self" and "h < length s"
  shows "map (\<lambda>v. outcome self v ar) mats = map Inr rs \<Longrightarrow>
         compare_loop self mats ar acc (s[h := hist]) = (Inr (acc @ rs), s[h := hist @ rs])"
proof (induction mats arbitrary: rs acc hist)
  case Nil
  then show ?case by simp
next
  case (Cons v mats)
  from Cons.prems obtain r rs' where rs: "rs = r # rs'" and v: "outcome self v ar = Inr r"
    and rest: "map (\<lambda>v. outcome self v ar) mats = map Inr rs'"
    by (cases rs) auto
  from assms v have step: "calculate self v ar (s[h := hist]) = (Inr r, s[h := hist @ [r]])"
    by (simp add: calculate_outcome append_at_update)
  show ?case
    by (simp add: step rs Cons.IH [OF rest])
qed

lemma compare_loop_fail:
  assumes "h = priv_calculations_history self" and "h < length s"
    and "outcome self bad ar = Inl e"
  shows "map (\<lambda>v. outcome self v ar) pre = map Inr rs \<Longrightarrow>
         compare_loop self (pre @ bad # post) ar acc (s[h := hist]) = (Inl e, s[h := hist @ rs])"
proof (induction pre arbitrary: rs acc hist)
  case Nil
  with assms(3) show ?case by (simp add: calculate_outcome)
next
  case (Cons v pre)
  from Cons.prems obtain r rs' where rs: "rs = r # rs'" and v: "outcome self v ar = Inr r"
    and rest: "map (\<lambda>v. outcome self v ar) pre = map Inr rs'"
    by (cases rs) auto
  from assms(1,2) v have step: "calculate self v ar (s[h := hist]) = (Inr r, s[h := hist @ [r]])"
    by (simp add: calculate_outcome append_at_update)
  show ?case
    by (simp add: step rs Cons.IH [OF rest])
qed

lemma cost_key_le:
  "x \<noteq> NaN \<Longrightarrow> y \<noteq> NaN \<Longrightarrow> cost_key x \<le> cost_key y \<longleftrightarrow> fle x y"
  by (cases x; cases y) simp_all

lemma cost_key_eq: "cost_key x = cost_key y \<longleftrightarrow> x = y"
  by (cases x; cases y) simp_all

lemma sort_by_total_cost_sorted:
  assumes "\<forall>r \<in> set rs. total_cost r \<noteq> NaN"
  shows "sorted_wrt (\<lambda>a b. fle (total_cost a) (total_cost b)) (sort_by_total_cost rs)"
proof -
  let ?key = "\<lambda>r. cost_key (total_cost r)"
  have "sorted (map ?key (sort_key ?key rs))" by (rule sorted_sort_key)
  then have "sorted_wrt (\<lambda>a b. ?key a \<le> ?key b) (sort_key ?key rs)"
    by (simp add: sorted_map)
  then show ?thesis
    unfolding sort_by_total_cost_def
  proof (rule sorted_wrt_mono_rel [rotated])
    fix a b
    assume "a \<in> set (sort_key ?key rs)" and "b \<in> set (sort_key ?key rs)"
      and "?key a \<le> ?key b"
    with assms show "fle (total_cost a) (total_cost b)"
      by (simp add: cost_key_le)
  qed
qed

lemma sort_by_total_cost_stable:
  "filter (\<lambda>r. total_cost r = k) (sort_by_total_cost rs) = filter (\<lambda>r. total_cost r = k) rs"
  using sort_key_stable [of "\<lambda>r. cost_key (total_cost r)" "cost_key k" rs]
  by (simp add: sort_by_total_cost_def cost_key_eq)

text \<open>
  C3 (as amended). \<open>compare_materials\<close> raises \<open>ValueError\<close> on an empty list of
  materials. Otherwise it calls \<open>calculate\<close> on the materials in the order of the
  input. If every call returns a result, the history has grown by these results, one for
  each material and in the order of the input, and the list returned holds the same
  results; when no cost is NaN, it holds them in order of non-decreasing \<open>total_cost\<close>,
  results of equal cost in the order of the input. If a call raises, the calls after it
  are not made, its exception is the exception of \<open>compare_materials\<close>, and the results
  of the calls before it stay in the history. What a call of \<open>calculate\<close> returns or
  raises is \<open>outcome\<close>, whatever the store.
\<close>

theorem compare_materials_sorted:
  "compare_materials self [] ar s = (Inl ValueError, s)
   \<and> (mats \<noteq> [] \<and> priv_calculations_history self < length s
        \<and> map (\<lambda>v. outcome self v ar) mats = map Inr rs \<longrightarrow>
       (\<exists>results.
          compare_materials self mats ar s =
            (Inr results,
             s[priv_calculations_history self := s ! priv_calculations_history self @ rs])
          \<and> length results = length mats
          \<and> ((\<forall>r \<in> set rs. total_cost r \<noteq> NaN) \<longrightarrow>
               sorted_wrt (\<lambda>a b. fle (total_cost a) (total_cost b)) results
               \<and> (\<forall>k. filter (\<lambda>r. total_cost r = k) results =
                        filter (\<lambda>r. total_cost r = k) rs))))
   \<and> (priv_calculations_history self < length s
        \<and> map (\<lambda>v. outcome self v ar) pre = map Inr rs \<and> outcome self bad ar = Inl e \<longrightarrow>
       compare_materials self (pre @ bad # post) ar s =
         (Inl e, s[priv_calculations_history self := s ! priv_calculations_history self @ rs]))
   \<and> fst (calculate self v ar t) = outcome self v ar"
proof (intro conjI impI)
  show "compare_materials self [] ar s = (Inl ValueError, s)"
    by (simp add: compare_materials_def)
next
  let ?h = "priv_calculations_history self"
  assume a: "mats \<noteq> [] \<and> ?h < length s \<and> map (\<lambda>v. outcome self v ar) mats = map Inr rs"
  then have ne: "mats \<noteq> []" and h: "?h < length s"
    and ok: "map (\<lambda>v. outcome self v ar) mats = map Inr rs"
    by simp_all
  from ok have len: "length rs = length mats"
    by (metis length_map)
  have "compare_loop self mats ar [] (s[?h := s ! ?h]) = (Inr ([] @ rs), s[?h := s ! ?h @ rs])"
    using refl h ok by (rule compare_loop_ok)
  then have loop: "compare_loop self mats ar [] s = (Inr rs, s[?h := s ! ?h @ rs])"
    by simp
  have cm: "compare_materials self mats ar s =
      (Inr (sort_by_total_cost rs), s[?h := s ! ?h @ rs])"
    using ne by (simp add: compare_materials_def loop)
  have l: "length (sort_by_total_cost rs) = length mats"
    by (simp add: sort_by_total_cost_def len)
  show "\<exists>results.
          compare_materials self mats ar s = (Inr results, s[?h := s ! ?h @ rs])
          \<and> length results = length mats
          \<and> ((\<forall>r \<in> set rs. total_cost r \<noteq> NaN) \<longrightarrow>
               sorted_wrt (\<lambda>a b. fle (total_cost a) (total_cost b)) results
               \<and> (\<forall>k. filter (\<lambda>r. total_cost r = k) results =
                        filter (\<lambda>r. total_cost r = k) rs))"
    using cm l by (simp add: sort_by_total_cost_sorted sort_by_total_cost_stable)
next
  let ?h = "priv_calculations_history self"
  assume a: "?h < length s \<and> map (\<lambda>v. outcome self v ar) pre = map Inr rs
    \<and> outcome self bad ar = Inl e"
  then have h: "?h < length s" and ok: "map (\<lambda>v. outcome self v ar) pre = map Inr rs"
    and bad: "outcome self bad ar = Inl e"
    by simp_all
  have "compare_loop self (pre @ bad # post) ar [] (s[?h := s ! ?h]) =
      (Inl e, s[?h := s ! ?h @ rs])"
    using refl h bad ok by (rule compare_loop_fail)
  then show "compare_materials self (pre @ bad # post) ar s = (Inl e, s[?h := s ! ?h @ rs])"
    by (simp add: compare_materials_def)
next
  show "fst (calculate self v ar t) = outcome self v ar"
    by (simp add: calculate_outcome split: sum.splits)
qed

text \<open>
  Three materials at an area of 50 with a reserve of 10: \<open>a\<close> costs 1 and covers 1,
  \<open>b\<close> costs 55.5 and covers 100, \<open>c\<close> costs 2 and covers 2. The rounded area with
  reserve, 55.00000000000001, gives 56 units of \<open>a\<close> at 56, one unit of \<open>b\<close> at 55.5
  and 28 units of \<open>c\<close> at 56: \<open>b\<close> comes first, and \<open>a\<close> stays before \<open>c\<close>.
\<close>

theorem compare_materials_sorted_witness:
  "compare_materials \<lparr>priv_reserve_percent = Fin 10, priv_calculations_history = 0\<rparr>
     [Instance (Material ''a'' (Fin 1) (Fin 1)), Instance (Material ''b'' (Fin (111 / 2)) (Fin 100)),
      Instance (Material ''c'' (Fin 2) (Fin 2))] (Fin 50) [[]]
   = (Inr [\<lparr>material = Material ''b'' (Fin (111 / 2)) (Fin 100), area = Fin 50, units_needed = 1,
             total_cost = Fin (111 / 2), reserve_percent = Fin 10\<rparr>,
           \<lparr>material = Material ''a'' (Fin 1) (Fin 1), area = Fin 50, units_needed = 56,
             total_cost = Fin 56, reserve_percent = Fin 10\<rparr>,
           \<lparr>material = Material ''c'' (Fin 2) (Fin 2), area = Fin 50, units_needed = 28,
             total_cost = Fin 56, reserve_percent = Fin 10\<rparr>],
      [[\<lparr>material = Material ''a'' (Fin 1) (Fin 1), area = Fin 50, units_needed = 56,
             total_cost = Fin 56, reserve_percent = Fin 10\<rparr>,
        \<lparr>material = Material ''b'' (Fin (111 / 2)) (Fin 100), area = Fin 50, units_needed = 1,
             total_cost = Fin (111 / 2), reserve_percent = Fin 10\<rparr>,
        \<lparr>material = Material ''c'' (Fin 2) (Fin 2), area = Fin 50, units_needed = 28,
             total_cost = Fin 56, reserve_percent = Fin 10\<rparr>]])
   \<and> compare_materials \<lparr>priv_reserve_percent = Fin 10, priv_calculations_history = 0\<rparr>
     [Instance (Material ''a'' (Fin 1) (Fin 1)), NoneValue,
      Instance (Material ''c'' (Fin 2) (Fin 2))] (Fin 50) [[]]
   = (Inl ValueError,
      [[\<lparr>material = Material ''a'' (Fin 1) (Fin 1), area = Fin 50, units_needed = 56,
             total_cost = Fin 56, reserve_percent = Fin 10\<rparr>]])"
proof -
  let ?c = "\<lparr>priv_reserve_percent = Fin 10, priv_calculations_history = 0\<rparr>"
  let ?a = "Material ''a'' (Fin 1) (Fin 1)"
  let ?b = "Material ''b'' (Fin (111 / 2)) (Fin 100)"
  let ?c' = "Material ''c'' (Fin 2) (Fin 2)"
  let ?ra = "\<lparr>material = ?a, area = Fin 50, units_needed = 56, total_cost = Fin 56,
              reserve_percent = Fin 10\<rparr>"
  let ?rb = "\<lparr>material = ?b, area = Fin 50, units_needed = 1, total_cost = Fin (111 / 2),
              reserve_percent = Fin 10\<rparr>"
  let ?rc = "\<lparr>material = ?c', area = Fin 50, units_needed = 28, total_cost = Fin 56,
              reserve_percent = Fin 10\<rparr>"
  have oa: "outcome ?c (Instance ?a) (Fin 50) = Inr ?ra"
    by (simp add: outcome_def example_defs evals)
  have ob: "outcome ?c (Instance ?b) (Fin 50) = Inr ?rb"
    by (simp add: outcome_def example_defs evals)
  have oc: "outcome ?c (Instance ?c') (Fin 50) = Inr ?rc"
    by (simp add: outcome_def example_defs evals)
  have on: "outcome ?c NoneValue (Fin 50) = Inl ValueError"
    by (simp add: outcome_def calculate_def)
  have hyp: "[Instance ?a, Instance ?b, Instance ?c'] \<noteq> []
      \<and> priv_calculations_history ?c < length [[] :: calculation_result list]
      \<and> map (\<lambda>v. outcome ?c v (Fin 50)) [Instance ?a, Instance ?b, Instance ?c']
          = map Inr [?ra, ?rb, ?rc]"
    by (simp add: oa ob oc)
  note sorted = mp [OF compare_materials_sorted
    [where self = ?c and ar = "Fin 50" and s = "[[]]"
       and mats = "[Instance ?a, Instance ?b, Instance ?c']" and rs = "[?ra, ?rb, ?rc]",
     THEN conjunct2, THEN conjunct1] hyp]
  have first: "compare_materials ?c [Instance ?a, Instance ?b, Instance ?c'] (Fin 50) [[]]
      = (Inr [?rb, ?ra, ?rc], [[?ra, ?rb, ?rc]])"
    by (simp add: compare_materials_def sort_by_total_cost_def example_defs evals)
  have hyp2: "priv_calculations_history ?c < length [[] :: calculation_result list]
      \<and> map (\<lambda>v. outcome ?c v (Fin 50)) [Instance ?a] = map Inr [?ra]
      \<and> outcome ?c NoneValue (Fin 50) = Inl ValueError"
    by (simp add: oa on)
  note failing = mp [OF compare_materials_sorted
    [where self = ?c and ar = "Fin 50" and s = "[[]]" and pre = "[Instance ?a]"
       and rs = "[?ra]" and bad = NoneValue and e = ValueError and post = "[Instance ?c']",
     THEN conjunct2, THEN conjunct2, THEN conjunct1] hyp2]
  from failing have second:
    "compare_materials ?c [Instance ?a, NoneValue, Instance ?c'] (Fin 50) [[]]
       = (Inl ValueError, [[?ra]])"
    by simp
  from sorted first second show ?thesis by simp
qed

text \<open>
  C3 as it is written lets \<open>compare_materials\<close> return a sorted list for every list of
  materials that is not empty. The exception of a failing \<open>calculate\<close> is not caught:
  with one material and the area \<open>0\<close> the call raises \<open>ValueError\<close>.
\<close>

theorem compare_materials_counterexample:
  "compare_materials \<lparr>priv_reserve_percent = Fin 10, priv_calculations_history = 0\<rparr>
     [Instance (Material ''m'' (Fin 1) (Fin 1))] (Fin 0) [[]] = (Inl ValueError, [[]])"
  by (simp add: compare_materials_def calculate_def)

subsection \<open>The reserve of a calculator\<close>

lemma set_reserve_percent_checked:
  "v \<noteq> NaN \<Longrightarrow> set_reserve_percent self v =
     (if fle (Fin 0) v \<and> fle v (Fin 100) then Inr (self\<lparr>priv_reserve_percent := v\<rparr>)
      else Inl ValueError)"
  by (cases v) (auto simp add: set_reserve_percent_def)

lemma set_reserve_percent_examples:
  "set_reserve_percent self (Fin (- 1)) = Inl ValueError"
  "set_reserve_percent self (Fin 101) = Inl ValueError"
  "set_reserve_percent self (Fin 0) = Inr (self\<lparr>priv_reserve_percent := Fin 0\<rparr>)"
  "set_reserve_percent self (Fin 100) = Inr (self\<lparr>priv_reserve_percent := Fin 100\<rparr>)"
  by (simp_all add: set_reserve_percent_def)

text \<open>Both comparisons of the setter are false on NaN, which it therefore stores.\<close>

lemma set_reserve_percent_NaN:
  "set_reserve_percent self NaN = Inr (self\<lparr>priv_reserve_percent := NaN\<rparr>)"
  by (simp add: set_reserve_percent_def)

lemma MaterialCalculator_default_reserve:
  "get_reserve_percent (fst (MaterialCalculator_default s)) = Fin 10"
  by (simp add: MaterialCalculator_default_def MaterialCalculator_def alloc_def
      get_reserve_percent_def)

text \<open>
  C4. The setter of \<open>reserve_percent\<close> refuses every number outside the range from 0 to
  100, and no other operation writes the reserve. The constructor writes the private
  attribute itself and checks nothing: \<open>MaterialCalculator(reserve_percent=150)\<close> is a
  calculator whose reserve is 150, outside the range.
\<close>

theorem MaterialCalculator_unchecked_reserve:
  "get_reserve_percent (fst (MaterialCalculator (Fin 150) [])) = Fin 150
   \<and> \<not> (fle (Fin 0) (get_reserve_percent (fst (MaterialCalculator (Fin 150) [])))
        \<and> fle (get_reserve_percent (fst (MaterialCalculator (Fin 150) []))) (Fin 100))"
  by (simp add: MaterialCalculator_def alloc_def get_reserve_percent_def)

subsection \<open>The history of a calculator\<close>

text \<open>
  C8. For a calculator whose history list is an object of the store:
  \<open>get_history\<close> makes a new list object with the contents of the history and returns
  it, and changes no list object that existed, the history among them; whatever the caller
  then does to the returned list, every other list object, the history among them, keeps
  its contents. \<open>clear_history\<close> empties the history and changes no other list object,
  so that every list returned by \<open>get_history\<close> before the clear keeps the contents it
  had; a \<open>get_history\<close> right after the clear returns an empty list.
\<close>

theorem history_copy:
  assumes "priv_calculations_history self < length s"
  shows "get_history self s = (length s, s @ [s ! priv_calculations_history self])
    \<and> fst (get_history self s) \<noteq> priv_calculations_history self
    \<and> snd (get_history self s) ! fst (get_history self s) = s ! priv_calculations_history self
    \<and> (\<forall>a < length s. snd (get_history self s) ! a = s ! a)
    \<and> (\<forall>xs a. a \<noteq> fst (get_history self s) \<longrightarrow>
          mutate (fst (get_history self s)) xs (snd (get_history self s)) ! a
            = snd (get_history self s) ! a)
    \<and> (\<forall>xs. mutate (fst (get_history self s)) xs (snd (get_history self s))
               ! priv_calculations_history self
             = s ! priv_calculations_history self)
    \<and> length (clear_history self s) = length s
    \<and> clear_history self s ! priv_calculations_history self = []
    \<and> (\<forall>a. a \<noteq> priv_calculations_history self \<longrightarrow> clear_history self s ! a = s ! a)
    \<and> snd (get_history self (clear_history self s))
         ! fst (get_history self (clear_history self s)) = []
    \<and> clear_history self (snd (get_history self s)) ! fst (get_history self s)
         = s ! priv_calculations_history self"
  using assms
  by (simp add: get_history_def clear_history_def mutate_def alloc_def nth_append)

text \<open>
  Two copies are taken, a result is appended to the first by its holder, the history is
  cleared: the first copy holds what its holder made of it, the second what the history
  held, and the history is empty.
\<close>

theorem history_copy_witness:
  "clear_history \<lparr>priv_reserve_percent = Fin 10, priv_calculations_history = 0\<rparr>
     (mutate 1
        [\<lparr>material = Material ''m'' (Fin 40) (Fin 2), area = Fin 7, units_needed = 4,
           total_cost = Fin 160, reserve_percent = Fin 10\<rparr>,
         \<lparr>material = Material ''m'' (Fin 40) (Fin 2), area = Fin 7, units_needed = 4,
           total_cost = Fin 160, reserve_percent = Fin 10\<rparr>]
        (snd (get_history \<lparr>priv_reserve_percent = Fin 10, priv_calculations_history = 0\<rparr>
          (snd (get_history \<lparr>priv_reserve_percent = Fin 10, priv_calculations_history = 0\<rparr>
            [[\<lparr>material = Material ''m'' (Fin 40) (Fin 2), area = Fin 7, units_needed = 4,
                total_cost = Fin 160, reserve_percent = Fin 10\<rparr>]])))))
   = [[],
      [\<lparr>material = Material ''m'' (Fin 40) (Fin 2), area = Fin 7, units_needed = 4,
         total_cost = Fin 160, reserve_percent = Fin 10\<rparr>,
       \<lparr>material = Material ''m'' (Fin 40) (Fin 2), area = Fin 7, units_needed = 4,
         total_cost = Fin 160, reserve_percent = Fin 10\<rparr>],
      [\<lparr>material = Material ''m'' (Fin 40) (Fin 2), area = Fin 7, units_needed = 4,
         total_cost = Fin 160, reserve_percent = Fin 10\<rparr>]]
   \<and> get_history \<lparr>priv_reserve_percent = Fin 10, priv_calculations_history = 0\<rparr>
        [[\<lparr>material = Material ''m'' (Fin 40) (Fin 2), area = Fin 7, units_needed = 4,
            total_cost = Fin 160, reserve_percent = Fin 10\<rparr>]]
      = (1, [[\<lparr>material = Material ''m'' (Fin 40) (Fin 2), area = Fin 7, units_needed = 4,
                total_cost = Fin 160, reserve_percent = Fin 10\<rparr>],
             [\<lparr>material = Material ''m'' (Fin 40) (Fin 2), area = Fin 7, units_needed = 4,
                total_cost = Fin 160, reserve_percent = Fin 10\<rparr>]])"
proof -
  let ?c = "\<lparr>priv_reserve_percent = Fin 10, priv_calculations_history = 0\<rparr>"
  let ?r = "\<lparr>material = Material ''m'' (Fin 40) (Fin 2), area = Fin 7, units_needed = 4,
             total_cost = Fin 160, reserve_percent = Fin 10\<rparr>"
  have h: "priv_calculations_history ?c < length [[?r]]" by simp
  note copy = history_copy [of ?c "[[?r]]", OF h, THEN conjunct1]
  have "clear_history ?c (mutate 1 [?r, ?r] (snd (get_history ?c (snd (get_history ?c [[?r]])))))
      = [[], [?r, ?r], [?r]]"
    by (simp add: get_history_def clear_history_def mutate_def alloc_def)
  with copy show ?thesis by simp
qed

subsection \<open>RoomCalculator.calculate_wall_area\<close>

text \<open>
  C5. \<open>calculate_wall_area\<close> raises \<open>ValueError\<close> if \<open>perimeter <= 0\<close> or
  \<open>height <= 0\<close> or \<open>door_area < 0\<close> or \<open>window_area < 0\<close>. Otherwise it computes
  \<open>perimeter * height - door_area - window_area\<close> in floats, raises \<open>ValueError\<close> if
  that result is \<open><= 0\<close>, and returns it if it is not.
\<close>

theorem calculate_wall_area_cases:
  "(fle perimeter (Fin 0) \<or> fle height (Fin 0) \<or> flt door_area (Fin 0)
      \<or> flt window_area (Fin 0) \<longrightarrow>
      calculate_wall_area perimeter height door_area window_area = Inl ValueError)
   \<and> (\<not> (fle perimeter (Fin 0) \<or> fle height (Fin 0) \<or> flt door_area (Fin 0)
          \<or> flt window_area (Fin 0)) \<longrightarrow>
      calculate_wall_area perimeter height door_area window_area =
        (if fle (fsub (fsub (fmul perimeter height) door_area) window_area) (Fin 0)
         then Inl ValueError
         else Inr (fsub (fsub (fmul perimeter height) door_area) window_area)))"
  by (auto simp add: calculate_wall_area_def Let_def)

text \<open>
  A negative perimeter; a wall of 0.1 by 3 with a door of 0.3, where the float product
  0.30000000000000004 leaves \<open>2 ^ -54\<close>; a wall of 4 by 1 that its openings use up.
\<close>

theorem calculate_wall_area_cases_witness:
  "calculate_wall_area (Fin (- 1)) (Fin 3) (Fin 0) (Fin 0) = Inl ValueError
   \<and> calculate_wall_area (round64 (1 / 10)) (Fin 3) (round64 (3 / 10)) (Fin 0)
       = Inr (Fin (1 / 2 ^ 54))
   \<and> calculate_wall_area (Fin 4) (Fin 1) (Fin 2) (Fin 2) = Inl ValueError"
  using calculate_wall_area_cases [of "Fin (- 1)" "Fin 3" "Fin 0" "Fin 0"]
    calculate_wall_area_cases [of "round64 (1 / 10)" "Fin 3" "round64 (3 / 10)" "Fin 0"]
    calculate_wall_area_cases [of "Fin 4" "Fin 1" "Fin 2" "Fin 2"]
  by (simp add: evals)

text \<open>
  C6 (as amended). \<open>calculate_wall_area(10, 2.5, 5, 5)\<close> returns 15, which is
  \<open>10 * 2.5 - 5 - 5\<close>, and \<open>calculate_wall_area(10, 2.5, 12, 13)\<close> raises
  \<open>ValueError\<close>, since nothing of the wall is left.
\<close>

theorem wall_area_examples:
  "calculate_wall_area (Fin 10) (Fin (5 / 2)) (Fin 5) (Fin 5) = Inr (Fin 15)
   \<and> calculate_wall_area (Fin 10) (Fin (5 / 2)) (Fin 12) (Fin 13) = Inl ValueError"
  by (simp add: calculate_wall_area_def Let_def evals)

text \<open>C6 as it is written gives 20 for the first call.\<close>

theorem wall_area_example_counterexample:
  "calculate_wall_area (Fin 10) (Fin (5 / 2)) (Fin 5) (Fin 5) \<noteq> Inr (Fin 20)"
  by (simp add: calculate_wall_area_def Let_def evals)

subsection \<open>The constructors of the materials\<close>

text \<open>
  C7. Each subclass derives \<open>unit_coverage\<close> from its dimensions when it is built:
  \<open>Wallpaper\<close> as \<open>roll_width * roll_length\<close>, \<open>Tile\<close> as
  \<open>tile_width * tile_height * tiles_per_box\<close>, \<open>Laminate\<close> as
  \<open>plank_width * plank_length * planks_per_pack\<close>. A roll of 0.53 by 10.05 covers
  the float 5.3265, which is within \<open>10 ^ -6\<close> of 5.3265, and a box of 8 tiles of 0.3 by
  0.3 covers the float 0.72.
\<close>

theorem unit_coverage_derived:
  "unit_coverage (Wallpaper nm price w l) = fmul w l
   \<and> unit_coverage (Tile nm price n tw th) = fmul (fmul tw th) (float_of_int n)
   \<and> unit_coverage (Laminate nm price k pw pl) = fmul (fmul pw pl) (float_of_int k)
   \<and> kind (Wallpaper nm price w l) = IsWallpaper w l
   \<and> kind (Tile nm price n tw th) = IsTile n tw th
   \<and> kind (Laminate nm price k pw pl) = IsLaminate k pw pl
   \<and> unit_coverage (Wallpaper nm price (round64 (53 / 100)) (round64 (1005 / 100)))
       = round64 (53265 / 10000)
   \<and> unit_coverage (Wallpaper_default nm price)
       = Fin (5997105853797237 / 1125899906842624)
   \<and> \<bar>5997105853797237 / 1125899906842624 - 53265 / 10000\<bar> \<le> (1 / 1000000 :: rat)
   \<and> unit_coverage (Tile nm price 8 (round64 (3 / 10)) (round64 (3 / 10))) = round64 (72 / 100)
   \<and> unit_coverage (Tile_default nm price 8) = round64 (72 / 100)"
  by (simp add: Wallpaper_def Tile_def Laminate_def Material_def Wallpaper_default_def
      Tile_default_def float_of_int_def Let_def evals)

text \<open>
  C9 (as amended). The constructors check nothing. \<open>Material\<close> stores the name, the
  price and the coverage it is given; the subclasses store the name and the price they
  are given and the coverage they derive as a float product. So a material built by a
  constructor has \<open>unit_coverage > 0\<close> and \<open>price_per_unit \<ge> 0\<close> exactly when the
  price given is \<open>\<ge> 0\<close> and the coverage given or derived is \<open>> 0\<close>.
\<close>

theorem constructors_store_unchecked:
  "Material nm price coverage =
     \<lparr>name = nm, price_per_unit = price, unit_coverage = coverage, kind = Base\<rparr>
   \<and> Wallpaper nm price w l =
     \<lparr>name = nm, price_per_unit = price, unit_coverage = fmul w l, kind = IsWallpaper w l\<rparr>
   \<and> Tile nm price n tw th =
     \<lparr>name = nm, price_per_unit = price,
      unit_coverage = fmul (fmul tw th) (float_of_int n), kind = IsTile n tw th\<rparr>
   \<and> Laminate nm price k pw pl =
     \<lparr>name = nm, price_per_unit = price,
      unit_coverage = fmul (fmul pw pl) (float_of_int k), kind = IsLaminate k pw pl\<rparr>
   \<and> (valid_material (Material nm price coverage) \<longleftrightarrow>
        flt (Fin 0) coverage \<and> fle (Fin 0) price)
   \<and> (valid_material (Wallpaper nm price w l) \<longleftrightarrow>
        flt (Fin 0) (fmul w l) \<and> fle (Fin 0) price)
   \<and> (valid_material (Tile nm price n tw th) \<longleftrightarrow>
        flt (Fin 0) (fmul (fmul tw th) (float_of_int n)) \<and> fle (Fin 0) price)
   \<and> (valid_material (Laminate nm price k pw pl) \<longleftrightarrow>
        flt (Fin 0) (fmul (fmul pw pl) (float_of_int k)) \<and> fle (Fin 0) price)"
  by (simp add: valid_material_def Material_def Wallpaper_def Tile_def Laminate_def Let_def)

text \<open>
  Materials that keep the bounds, and one that breaks them although every argument is
  positive: a roll of \<open>2 ^ -600\<close> by \<open>2 ^ -600\<close> has a coverage that underflows to zero.
\<close>

theorem constructors_store_unchecked_witness:
  "valid_material (Material ''m'' (Fin 450) (Fin 9))
   \<and> valid_material (Wallpaper ''m'' (Fin 450) (round64 (53 / 100)) (round64 (1005 / 100)))
   \<and> valid_material (Tile ''m'' (Fin 450) 8 (round64 (3 / 10)) (round64 (3 / 10)))
   \<and> valid_material
       (Laminate ''m'' (Fin 450) 8 (round64 (193 / 1000)) (round64 (1380 / 1000)))
   \<and> \<not> valid_material (Wallpaper ''m'' (Fin 450) (Fin (1 / 2 ^ 600)) (Fin (1 / 2 ^ 600)))"
  using constructors_store_unchecked
    [of "''m''" "Fin 450" "Fin 9" "round64 (53 / 100)" "round64 (1005 / 100)" 8
        "round64 (3 / 10)" "round64 (3 / 10)" 8 "round64 (193 / 1000)" "round64 (1380 / 1000)"]
    constructors_store_unchecked
    [of "''m''" "Fin 450" "Fin 9" "Fin (1 / 2 ^ 600)" "Fin (1 / 2 ^ 600)" 8
        "round64 (3 / 10)" "round64 (3 / 10)" 8 "round64 (193 / 1000)" "round64 (1380 / 1000)"]
  by (simp add: valid_material_def Material_def Wallpaper_def Tile_def Laminate_def Let_def
      float_of_int_def evals)

text \<open>
  C9 as it is written excludes a material that breaks the bounds. The base constructor
  builds one from a negative price and a coverage of zero.
\<close>

theorem material_invariant_counterexample:
  "\<not> valid_material (Material ''x'' (Fin (- 1)) (Fin 0))"
  by (simp add: valid_material_def Material_def)

end
